theory Spec2Isabelle
  imports Main
begin

section \<open>The document controller of noteshare-backend\<close>

text \<open>
  A shallow embedding of \<^verbatim>\<open>src/controllers/doc.controller.ts\<close>: the request handlers
  \<^verbatim>\<open>handleGetAllUser\<close>, \<^verbatim>\<open>handleGetFiles\<close>, \<^verbatim>\<open>handleNewAccessRole\<close>,
  \<^verbatim>\<open>handleRemoveRole\<close> and \<^verbatim>\<open>handleDeleteDoc\<close>. The specification calls them
  listRoleAssignments, listVisibleDocuments, grantRole, removeRole and deleteDocument.

  Each handler is a function from the request (the caller's identity \<^verbatim>\<open>res.locals.userId\<close>
  and the fields of \<^verbatim>\<open>req.body\<close>) and the state of the datastore to the response
  (status code and JSON body) and the new state of the datastore. The services of
  \<^verbatim>\<open>services/doc.service\<close> and \<^verbatim>\<open>services/user.service\<close> and the message tables of
  \<^verbatim>\<open>config/config\<close> are imported by the controller; the handlers take them as
  parameters. A rejected promise (a thrown exception) is the value \<open>Inl msg\<close>, where
  \<open>msg\<close> is the exception's \<^verbatim>\<open>message\<close>. \<^verbatim>\<open>console.error\<close> is not modelled.
\<close>

subsection \<open>Data\<close>

text \<open>
  Identifiers are modelled by their string form (\<^verbatim>\<open>ObjectId.toString()\<close>), which is
  what the handlers compare: \<^verbatim>\<open>doc.adminId.toString() !== userId\<close>.
\<close>

type_synonym uid = string
type_synonym did = string

text \<open>\<^verbatim>\<open>export enum Role { Admin, readOnly, readWrite }\<close>\<close>

datatype Role = Role_Admin | Role_readOnly | Role_readWrite

text \<open>
  The role of a grant request: \<^verbatim>\<open>role: "readOnly" | "readWrite"\<close> in
  \<^verbatim>\<open>handleNewAccessRole\<close>.
\<close>

datatype GrantRole = Grant_readOnly | Grant_readWrite

text \<open>
  A document as the handlers read it. The two role arrays are optional: the handlers
  reach them through \<^verbatim>\<open>?.\<close>, so an absent array is \<open>None\<close>.
\<close>

record doc =
  d_id :: did
  name :: string
  desc :: string
  adminId :: uid
  readonly :: "uid list option"
  readWrite :: "uid list option"

record user =
  u_id :: uid
  u_email :: string

text \<open>The tables \<^verbatim>\<open>ERROR_MESSAGES\<close> and \<^verbatim>\<open>SUCCESS_MESSAGES\<close> of the configuration.\<close>

record config =
  UNAUTHORIZED_USER :: string
  INTERNAL_SERVER_ERROR :: string
  INVALID_DOC :: string
  ACCESS_CHANGE_NOT_ALLOWED :: string
  EMAIL_NOT_REGISTERED :: string
  ACCESS_GRANTED :: string
  ACCESS_REMOVED :: string

text \<open>
  The services the controller imports, over a datastore state \<open>'w\<close>. A lookup reads the
  state; \<open>grantRole\<close>, \<open>removeRole\<close> and \<open>deleteDoc\<close> return the new state together with
  their outcome, so that a service that throws may still have written.
\<close>

record 'w services =
  getDocById :: "did \<Rightarrow> 'w \<Rightarrow> string + doc option"
  getAllFiles :: "uid \<Rightarrow> 'w \<Rightarrow> string + doc list"
  findUserById :: "uid \<Rightarrow> 'w \<Rightarrow> string + user option"
  findUserByEmail :: "string \<Rightarrow> 'w \<Rightarrow> string + user option"
  grantRole :: "doc \<Rightarrow> uid \<Rightarrow> GrantRole \<Rightarrow> 'w \<Rightarrow> (string + unit) \<times> 'w"
  removeRole :: "doc \<Rightarrow> uid \<Rightarrow> Role \<Rightarrow> 'w \<Rightarrow> (string + unit) \<times> 'w"
  deleteDoc :: "did \<Rightarrow> 'w \<Rightarrow> (string + unit) \<times> 'w"

text \<open>The JSON bodies the handlers send.\<close>

record userEntry =
  role :: Role
  email :: string

record docEntry =
  docId :: did
  e_name :: string
  e_desc :: string
  e_role :: Role

datatype body =
    Fail string
  | Success
  | SuccessMessage string
  | SuccessUsers "userEntry list"
  | SuccessDocs "docEntry list"

record response =
  status :: nat
  json :: body

subsection \<open>handleGetAllUser\<close>

text \<open>
  \<^verbatim>\<open>doc.readonly?.map((roleId) => ({ role, roleId }))\<close>: the tagged array, or
  \<^verbatim>\<open>undefined\<close> when the array is absent.
\<close>

definition tagArray :: "Role \<Rightarrow> uid list option \<Rightarrow> (Role \<times> uid) list option" where
  "tagArray r arr = (case arr of None \<Rightarrow> None | Some ids \<Rightarrow> Some (map (\<lambda>roleId. (r, roleId)) ids))"

text \<open>
  \<^verbatim>\<open>if (arr && arr.length > 0) data = data.concat(arr)\<close>
\<close>

definition concatIfAny :: "(Role \<times> uid) list \<Rightarrow> (Role \<times> uid) list option \<Rightarrow> (Role \<times> uid) list" where
  "concatIfAny data arr =
     (case arr of None \<Rightarrow> data
      | Some xs \<Rightarrow> if length xs > 0 then data @ xs else data)"

definition mergedData :: "doc \<Rightarrow> (Role \<times> uid) list" where
  "mergedData d =
     (let data = [];
          readOnlyArray = tagArray Role_readOnly (readonly d);
          readWriteArray = tagArray Role_readWrite (readWrite d);
          data = concatIfAny data readOnlyArray;
          data = concatIfAny data readWriteArray
      in data)"

text \<open>
  The body of the \<^verbatim>\<open>data.map(async (item) => ...)\<close> callback: the lookup and the
  \<^verbatim>\<open>throw\<close> for a missing user are inside a \<^verbatim>\<open>try\<close> whose \<^verbatim>\<open>catch\<close> returns the
  placeholder entry. Building the \<^verbatim>\<open>ObjectId\<close> from the stored identifier happens inside
  the same \<^verbatim>\<open>try\<close>; its failure is part of \<open>findUserById\<close>'s \<open>Inl\<close>.
\<close>

definition resolveItem :: "'w services \<Rightarrow> 'w \<Rightarrow> Role \<times> uid \<Rightarrow> userEntry" where
  "resolveItem sv w item =
     (case findUserById sv (snd item) w of
        Inl e \<Rightarrow> \<lparr>role = fst item, email = ''User not found''\<rparr>
      | Inr None \<Rightarrow> \<lparr>role = fst item, email = ''User not found''\<rparr>
      | Inr (Some u) \<Rightarrow> \<lparr>role = fst item, email = u_email u\<rparr>)"

text \<open>
  \<^verbatim>\<open>Promise.all\<close> keeps one slot per promise of the array it is given. A promise that
  fulfils stores its value in the slot of its own index, once; when every slot is filled
  the result is the array of the slots. The lookups run concurrently, so the order in
  which they complete is not fixed by the program: it is the parameter \<open>order\<close>, a list
  of indices. Every lookup completes, so the promises that \<open>order\<close> does not name
  settle after those it names. No callback of \<^verbatim>\<open>handleGetAllUser\<close> rejects, so its
  \<^verbatim>\<open>Promise.all\<close> does not reject.
\<close>

definition settle :: "'a list \<Rightarrow> nat \<Rightarrow> 'a option list \<Rightarrow> 'a option list" where
  "settle vs i slots =
     (if i < length vs \<and> slots ! i = None then slots[i := Some (vs ! i)] else slots)"

definition promiseAll :: "nat list \<Rightarrow> 'a list \<Rightarrow> 'a list" where
  "promiseAll order vs =
     map the (fold (settle vs) (order @ [0..<length vs]) (replicate (length vs) None))"

text \<open>
  The handler, with the completion order of the lookups of
  \<^verbatim>\<open>await Promise.all(filteredDataPromises)\<close> as the parameter \<open>order\<close>.
\<close>

definition handleGetAllUser ::
  "config \<Rightarrow> 'w services \<Rightarrow> nat list \<Rightarrow> uid \<Rightarrow> did \<Rightarrow> 'w \<Rightarrow> response \<times> 'w" where
  "handleGetAllUser cfg sv order userId docId' w =
     (case getDocById sv docId' w of
        Inl e \<Rightarrow> (\<lparr>status = 500, json = Fail (INTERNAL_SERVER_ERROR cfg)\<rparr>, w)
      | Inr None \<Rightarrow> (\<lparr>status = 404, json = Fail ''No document found''\<rparr>, w)
      | Inr (Some d) \<Rightarrow>
          if adminId d \<noteq> userId
          then (\<lparr>status = 403, json = Fail (UNAUTHORIZED_USER cfg)\<rparr>, w)
          else
            let data = mergedData d;
                filteredDataPromises = map (resolveItem sv w) data;
                filteredData = promiseAll order filteredDataPromises
            in (\<lparr>status = 200, json = SuccessUsers filteredData\<rparr>, w))"

subsection \<open>handleGetFiles\<close>

text \<open>
  \<^verbatim>\<open>arr?.includes(userId)\<close> as a condition: \<^verbatim>\<open>undefined\<close> (falsy) when the array is
  absent. An element of the array matches when its string form is \<open>userId\<close>.
\<close>

definition arrayIncludes :: "uid list option \<Rightarrow> uid \<Rightarrow> bool" where
  "arrayIncludes arr userId = (case arr of None \<Rightarrow> False | Some ids \<Rightarrow> userId \<in> set ids)"

text \<open>The callback of \<^verbatim>\<open>files.map((file) => ...)\<close>.\<close>

definition fileEntry :: "uid \<Rightarrow> doc \<Rightarrow> docEntry" where
  "fileEntry userId file =
     (let role = Role_Admin;
          role = (if arrayIncludes (readonly file) userId then Role_readOnly
                  else if arrayIncludes (readWrite file) userId then Role_readWrite
                  else role)
      in \<lparr>docId = d_id file, e_name = name file, e_desc = desc file, e_role = role\<rparr>)"

definition handleGetFiles :: "config \<Rightarrow> 'w services \<Rightarrow> uid \<Rightarrow> 'w \<Rightarrow> response \<times> 'w" where
  "handleGetFiles cfg sv userId w =
     (case getAllFiles sv userId w of
        Inl e \<Rightarrow> (\<lparr>status = 500, json = Fail (INTERNAL_SERVER_ERROR cfg)\<rparr>, w)
      | Inr files \<Rightarrow>
          let data = map (fileEntry userId) files
          in (\<lparr>status = 200, json = SuccessDocs data\<rparr>, w))"

subsection \<open>handleNewAccessRole, handleRemoveRole, handleDeleteDoc\<close>

text \<open>
  In these three handlers the ownership check throws
  \<^verbatim>\<open>new Error(ERROR_MESSAGES.ACCESS_CHANGE_NOT_ALLOWED)\<close> inside the \<^verbatim>\<open>try\<close>; the
  \<^verbatim>\<open>catch\<close> answers every exception with status 500 and the exception's message.
\<close>

definition handleNewAccessRole ::
  "config \<Rightarrow> 'w services \<Rightarrow> uid \<Rightarrow> did \<Rightarrow> string \<Rightarrow> GrantRole \<Rightarrow> 'w \<Rightarrow> response \<times> 'w" where
  "handleNewAccessRole cfg sv userId docId' email' role' w =
     (case getDocById sv docId' w of
        Inl e \<Rightarrow> (\<lparr>status = 500, json = Fail e\<rparr>, w)
      | Inr None \<Rightarrow> (\<lparr>status = 404, json = Fail (INVALID_DOC cfg)\<rparr>, w)
      | Inr (Some d) \<Rightarrow>
          if adminId d \<noteq> userId
          then (\<lparr>status = 500, json = Fail (ACCESS_CHANGE_NOT_ALLOWED cfg)\<rparr>, w)
          else
            (case findUserByEmail sv email' w of
               Inl e \<Rightarrow> (\<lparr>status = 500, json = Fail e\<rparr>, w)
             | Inr None \<Rightarrow> (\<lparr>status = 404, json = Fail (EMAIL_NOT_REGISTERED cfg)\<rparr>, w)
             | Inr (Some newPerson) \<Rightarrow>
                 (case grantRole sv d (u_id newPerson) role' w of
                    (Inl e, w') \<Rightarrow> (\<lparr>status = 500, json = Fail e\<rparr>, w')
                  | (Inr _, w') \<Rightarrow>
                      (\<lparr>status = 200, json = SuccessMessage (ACCESS_GRANTED cfg)\<rparr>, w'))))"

definition handleRemoveRole ::
  "config \<Rightarrow> 'w services \<Rightarrow> uid \<Rightarrow> did \<Rightarrow> string \<Rightarrow> Role \<Rightarrow> 'w \<Rightarrow> response \<times> 'w" where
  "handleRemoveRole cfg sv userId docId' email' role' w =
     (case getDocById sv docId' w of
        Inl e \<Rightarrow> (\<lparr>status = 500, json = Fail e\<rparr>, w)
      | Inr None \<Rightarrow> (\<lparr>status = 404, json = Fail (INVALID_DOC cfg)\<rparr>, w)
      | Inr (Some d) \<Rightarrow>
          if adminId d \<noteq> userId
          then (\<lparr>status = 500, json = Fail (ACCESS_CHANGE_NOT_ALLOWED cfg)\<rparr>, w)
          else
            (case findUserByEmail sv email' w of
               Inl e \<Rightarrow> (\<lparr>status = 500, json = Fail e\<rparr>, w)
             | Inr None \<Rightarrow> (\<lparr>status = 404, json = Fail (EMAIL_NOT_REGISTERED cfg)\<rparr>, w)
             | Inr (Some newPerson) \<Rightarrow>
                 (case removeRole sv d (u_id newPerson) role' w of
                    (Inl e, w') \<Rightarrow> (\<lparr>status = 500, json = Fail e\<rparr>, w')
                  | (Inr _, w') \<Rightarrow>
                      (\<lparr>status = 200, json = SuccessMessage (ACCESS_REMOVED cfg)\<rparr>, w'))))"

definition handleDeleteDoc ::
  "config \<Rightarrow> 'w services \<Rightarrow> uid \<Rightarrow> did \<Rightarrow> 'w \<Rightarrow> response \<times> 'w" where
  "handleDeleteDoc cfg sv userId docId' w =
     (case getDocById sv docId' w of
        Inl e \<Rightarrow> (\<lparr>status = 500, json = Fail e\<rparr>, w)
      | Inr None \<Rightarrow> (\<lparr>status = 404, json = Fail (INVALID_DOC cfg)\<rparr>, w)
      | Inr (Some d) \<Rightarrow>
          if adminId d \<noteq> userId
          then (\<lparr>status = 500, json = Fail (ACCESS_CHANGE_NOT_ALLOWED cfg)\<rparr>, w)
          else
            (case deleteDoc sv docId' w of
               (Inl e, w') \<Rightarrow> (\<lparr>status = 500, json = Fail e\<rparr>, w')
             | (Inr _, w') \<Rightarrow> (\<lparr>status = 200, json = Success\<rparr>, w')))"

subsection \<open>The datastore and its services, from the specification\<close>

text \<open>
  The files \<^verbatim>\<open>services/doc.service\<close> and \<^verbatim>\<open>services/user.service\<close> are not part of
  the sources at hand. The definitions of this subsection follow the specification's
  description of the Document Store and the User Directory; they instantiate the
  \<open>services\<close> parameter of the handlers.
\<close>

record world =
  docs :: "doc list"
  users :: "user list"

text \<open>
  Modelled from the spec: \<^verbatim>\<open>getDocById\<close> of the missing \<^verbatim>\<open>doc.service\<close>. "Fetch by
  identifier. Returns a not-found signal (never an exception) when absent."
\<close>

definition spec_getDocById :: "did \<Rightarrow> world \<Rightarrow> string + doc option" where
  "spec_getDocById i w = Inr (find (\<lambda>d. d_id d = i) (docs w))"

text \<open>
  Modelled from the spec: the visibility condition of \<^verbatim>\<open>getAllFiles\<close> of the missing
  \<^verbatim>\<open>doc.service\<close>. "Every Document where userId is the owner, or present in
  readOnlyUsers, or present in readWriteUsers."
\<close>

definition visibleTo :: "uid \<Rightarrow> doc \<Rightarrow> bool" where
  "visibleTo u d \<longleftrightarrow>
     adminId d = u \<or> arrayIncludes (readonly d) u \<or> arrayIncludes (readWrite d) u"

text \<open>
  Modelled from the spec: \<^verbatim>\<open>getAllFiles\<close> of the missing \<^verbatim>\<open>doc.service\<close>
  (fetch-all-visible-to-user), in the order of the store.
\<close>

definition spec_getAllFiles :: "uid \<Rightarrow> world \<Rightarrow> string + doc list" where
  "spec_getAllFiles u w = Inr (filter (visibleTo u) (docs w))"

text \<open>
  Modelled from the spec: \<^verbatim>\<open>findUserById\<close> of the missing \<^verbatim>\<open>user.service\<close>.
  "findById(id) returns User or not-found."
\<close>

definition spec_findUserById :: "uid \<Rightarrow> world \<Rightarrow> string + user option" where
  "spec_findUserById i w = Inr (find (\<lambda>u. u_id u = i) (users w))"

text \<open>
  Modelled from the spec: \<^verbatim>\<open>findUserByEmail\<close> of the missing \<^verbatim>\<open>user.service\<close>.
  "findByEmail(email) returns User or not-found."
\<close>

definition spec_findUserByEmail :: "string \<Rightarrow> world \<Rightarrow> string + user option" where
  "spec_findUserByEmail e w = Inr (find (\<lambda>u. u_email u = e) (users w))"

text \<open>
  Modelled from the spec: the field-level mutation "append a user id to a role array"
  behind \<^verbatim>\<open>grantRole\<close> of the missing \<^verbatim>\<open>doc.service\<close>. The specification leaves the
  duplicate policy open; the identifier is appended as it is.
\<close>

definition appendTo :: "uid list option \<Rightarrow> uid \<Rightarrow> uid list option" where
  "appendTo arr u = (case arr of None \<Rightarrow> Some [u] | Some ids \<Rightarrow> Some (ids @ [u]))"

text \<open>
  Modelled from the spec: \<^verbatim>\<open>grantRole\<close> of the missing \<^verbatim>\<open>doc.service\<close>. "Adds the
  grantee's identifier to the Document's readOnly or readWrite set matching role."
\<close>

definition spec_grantRole :: "doc \<Rightarrow> uid \<Rightarrow> GrantRole \<Rightarrow> world \<Rightarrow> (string + unit) \<times> world" where
  "spec_grantRole d u r w =
     (Inr (),
      w\<lparr>docs :=
        map (\<lambda>x. if d_id x = d_id d
                  then (case r of
                          Grant_readOnly \<Rightarrow> x\<lparr>readonly := appendTo (readonly x) u\<rparr>
                        | Grant_readWrite \<Rightarrow> x\<lparr>readWrite := appendTo (readWrite x) u\<rparr>)
                  else x) (docs w)\<rparr>)"

text \<open>
  Modelled from the spec: the field-level mutation "remove a user id from a role array"
  behind \<^verbatim>\<open>removeRole\<close> of the missing \<^verbatim>\<open>doc.service\<close>.
\<close>

definition removeFrom :: "uid list option \<Rightarrow> uid \<Rightarrow> uid list option" where
  "removeFrom arr u = (case arr of None \<Rightarrow> None | Some ids \<Rightarrow> Some (filter (\<lambda>x. x \<noteq> u) ids))"

text \<open>
  Modelled from the spec: \<^verbatim>\<open>removeRole\<close> of the missing \<^verbatim>\<open>doc.service\<close>. "Removes
  the identifier from the specified role set. Removing an identifier not present in the
  set is a no-op, not an error." No set stores the role Admin, so that role removes
  nothing.
\<close>

definition spec_removeRole :: "doc \<Rightarrow> uid \<Rightarrow> Role \<Rightarrow> world \<Rightarrow> (string + unit) \<times> world" where
  "spec_removeRole d u r w =
     (Inr (),
      w\<lparr>docs :=
        map (\<lambda>x. if d_id x = d_id d
                  then (case r of
                          Role_readOnly \<Rightarrow> x\<lparr>readonly := removeFrom (readonly x) u\<rparr>
                        | Role_readWrite \<Rightarrow> x\<lparr>readWrite := removeFrom (readWrite x) u\<rparr>
                        | Role_Admin \<Rightarrow> x)
                  else x) (docs w)\<rparr>)"

text \<open>
  Modelled from the spec: \<^verbatim>\<open>deleteDoc\<close> of the missing \<^verbatim>\<open>doc.service\<close>.
  "Permanently removes the Document and its embedded role sets."
\<close>

definition spec_deleteDoc :: "did \<Rightarrow> world \<Rightarrow> (string + unit) \<times> world" where
  "spec_deleteDoc i w = (Inr (), w\<lparr>docs := filter (\<lambda>d. d_id d \<noteq> i) (docs w)\<rparr>)"

text \<open>
  Modelled from the spec: the services of the missing \<^verbatim>\<open>doc.service\<close> and
  \<^verbatim>\<open>user.service\<close>, collected for the handlers.
\<close>

definition specServices :: "world services" where
  "specServices =
     \<lparr>getDocById = spec_getDocById,
      getAllFiles = spec_getAllFiles,
      findUserById = spec_findUserById,
      findUserByEmail = spec_findUserByEmail,
      grantRole = spec_grantRole,
      removeRole = spec_removeRole,
      deleteDoc = spec_deleteDoc\<rparr>"

subsection \<open>Notions used to state the properties\<close>

text \<open>The identifiers of an optional role array, none when the array is absent.\<close>

definition idsOf :: "uid list option \<Rightarrow> uid list" where
  "idsOf arr = (case arr of None \<Rightarrow> [] | Some ids \<Rightarrow> ids)"

text \<open>
  The slots of a \<^verbatim>\<open>Promise.all\<close> under way: one per promise, each empty or holding
  the value of its own promise.
\<close>

definition partly :: "'a list \<Rightarrow> 'a option list \<Rightarrow> bool" where
  "partly vs slots \<longleftrightarrow>
     length slots = length vs \<and>
     (\<forall>i < length vs. slots ! i = None \<or> slots ! i = Some (vs ! i))"

text \<open>The role array a role names; the role Admin names none.\<close>

definition roleArray :: "Role \<Rightarrow> doc \<Rightarrow> uid list option" where
  "roleArray r d =
     (case r of Role_readOnly \<Rightarrow> readonly d | Role_readWrite \<Rightarrow> readWrite d | Role_Admin \<Rightarrow> None)"

subsection \<open>Sample data\<close>

text \<open>
  A configuration for evaluating the handlers. The specification gives the texts of
  \<open>ACCESS_CHANGE_NOT_ALLOWED\<close> and \<open>EMAIL_NOT_REGISTERED\<close>; the other texts are
  sample values.
\<close>

definition cfg0 :: config where
  "cfg0 =
     \<lparr>UNAUTHORIZED_USER = ''unauthorized user'',
      INTERNAL_SERVER_ERROR = ''internal server error'',
      INVALID_DOC = ''invalid document'',
      ACCESS_CHANGE_NOT_ALLOWED = ''not allowed to change access'',
      EMAIL_NOT_REGISTERED = ''email not registered'',
      ACCESS_GRANTED = ''access granted'',
      ACCESS_REMOVED = ''access removed''\<rparr>"

text \<open>
  The document of the specification's scenario: owner \<open>u1\<close>, read-only user \<open>u2\<close>
  (registered), read-write user \<open>u3\<close> (deleted from the directory).
\<close>

definition docSpec :: doc where
  "docSpec =
     \<lparr>d_id = ''d1'', name = ''Spec'', desc = ''v1'', adminId = ''u1'',
      readonly = Some [''u2''], readWrite = Some [''u3'']\<rparr>"

text \<open>A document whose owner \<open>u1\<close> has been granted the read-only role on it.\<close>

definition docSelf :: doc where
  "docSelf =
     \<lparr>d_id = ''d2'', name = ''Notes'', desc = ''own'', adminId = ''u1'',
      readonly = Some [''u1''], readWrite = None\<rparr>"

text \<open>A document of another owner on which \<open>u1\<close> holds no role.\<close>

definition docOther :: doc where
  "docOther =
     \<lparr>d_id = ''d3'', name = ''Plan'', desc = ''q3'', adminId = ''u2'',
      readonly = Some [], readWrite = Some [''u4'']\<rparr>"

definition w0 :: world where
  "w0 =
     \<lparr>docs = [docSpec, docSelf, docOther],
      users = [\<lparr>u_id = ''u1'', u_email = ''a@x.com''\<rparr>,
               \<lparr>u_id = ''u2'', u_email = ''user@x.com''\<rparr>,
               \<lparr>u_id = ''u4'', u_email = ''d@x.com''\<rparr>]\<rparr>"

section \<open>Properties\<close>

subsection \<open>Auxiliary facts\<close>

lemmas sample_defs = cfg0_def w0_def docSpec_def docSelf_def docOther_def

lemmas spec_defs = specServices_def spec_getDocById_def spec_getAllFiles_def
  spec_findUserById_def spec_findUserByEmail_def spec_grantRole_def spec_removeRole_def
  spec_deleteDoc_def visibleTo_def appendTo_def removeFrom_def

text \<open>
  \<^verbatim>\<open>Promise.all\<close> fulfils with the values in the order of its argument, whatever
  the order of completion: settling keeps the slots partly filled with the right values,
  a filled slot stays as it is, and in the end every slot has been filled.
\<close>

lemma partly_settle: "partly vs slots \<Longrightarrow> partly vs (settle vs j slots)"
  by (auto simp: partly_def settle_def nth_list_update)

lemma settle_keeps:
  "partly vs slots \<Longrightarrow> i < length vs \<Longrightarrow> slots ! i = Some (vs ! i) \<Longrightarrow>
   settle vs j slots ! i = Some (vs ! i)"
  by (auto simp: partly_def settle_def nth_list_update)

lemma settle_fills:
  "partly vs slots \<Longrightarrow> j < length vs \<Longrightarrow> settle vs j slots ! j = Some (vs ! j)"
  by (auto simp: partly_def settle_def)

lemma partly_fold: "partly vs slots \<Longrightarrow> partly vs (fold (settle vs) js slots)"
  by (induction js arbitrary: slots) (simp_all add: partly_settle)

lemma fold_keeps:
  "partly vs slots \<Longrightarrow> i < length vs \<Longrightarrow> slots ! i = Some (vs ! i) \<Longrightarrow>
   fold (settle vs) js slots ! i = Some (vs ! i)"
  by (induction js arbitrary: slots) (simp_all add: partly_settle settle_keeps)

lemma fold_fills:
  "partly vs slots \<Longrightarrow> i < length vs \<Longrightarrow> i \<in> set js \<Longrightarrow>
   fold (settle vs) js slots ! i = Some (vs ! i)"
proof (induction js arbitrary: slots)
  case Nil
  then show ?case by simp
next
  case (Cons j js)
  show ?case
  proof (cases "i = j")
    case True
    with Cons.prems show ?thesis
      by (simp add: fold_keeps partly_settle settle_fills)
  next
    case False
    with Cons show ?thesis
      by (simp add: partly_settle)
  qed
qed

lemma promiseAll_eq: "promiseAll order vs = vs"
proof -
  let ?start = "replicate (length vs) None :: 'a option list"
  let ?mid = "fold (settle vs) order ?start"
  let ?final = "fold (settle vs) [0..<length vs] ?mid"
  have "partly vs ?start"
    by (simp add: partly_def)
  then have mid: "partly vs ?mid"
    by (rule partly_fold)
  then have "partly vs ?final"
    by (rule partly_fold)
  then have len: "length ?final = length vs"
    by (simp add: partly_def)
  have filled: "?final ! i = Some (vs ! i)" if "i < length vs" for i
    using mid that by (simp add: fold_fills)
  have "map the ?final = vs"
    by (rule nth_equalityI) (simp_all add: len filled)
  then show ?thesis
    by (simp add: promiseAll_def)
qed

text \<open>
  The merged array of \<^verbatim>\<open>handleGetAllUser\<close>: the guards on the length only skip the
  concatenation of an empty array.
\<close>

lemma mergedData_eq:
  "mergedData d =
     map (Pair Role_readOnly) (idsOf (readonly d)) @ map (Pair Role_readWrite) (idsOf (readWrite d))"
  by (simp add: mergedData_def tagArray_def concatIfAny_def idsOf_def split: option.splits)

lemma handleGetAllUser_owner:
  assumes "getDocById sv docId' w = Inr (Some d)" and "adminId d = userId"
  shows "handleGetAllUser cfg sv order userId docId' w =
           (\<lparr>status = 200, json = SuccessUsers (map (resolveItem sv w) (mergedData d))\<rparr>, w)"
  using assms by (simp add: handleGetAllUser_def promiseAll_eq)

lemma role_resolveItem: "role (resolveItem sv w item) = fst item"
  by (simp add: resolveItem_def split: sum.splits option.splits)

lemma handleGetFiles_ok:
  assumes "getAllFiles sv userId w = Inr files"
  shows "handleGetFiles cfg sv userId w =
           (\<lparr>status = 200, json = SuccessDocs (map (fileEntry userId) files)\<rparr>, w)"
  using assms by (simp add: handleGetFiles_def)

lemma docId_fileEntry: "docId (fileEntry u f) = d_id f"
  by (simp add: fileEntry_def)

lemma e_role_fileEntry:
  "e_role (fileEntry u f) =
     (if arrayIncludes (readonly f) u then Role_readOnly
      else if arrayIncludes (readWrite f) u then Role_readWrite
      else Role_Admin)"
  by (simp add: fileEntry_def)

lemma fileEntry_adminId: "fileEntry u (f\<lparr>adminId := a\<rparr>) = fileEntry u f"
  by (simp add: fileEntry_def)

lemma same_id_same_doc:
  assumes "distinct (map d_id ds)" and "x \<in> set ds" and "y \<in> set ds" and "d_id x = d_id y"
  shows "x = y"
  using assms by (meson distinct_map inj_on_def)

lemma find_Some_mem: "find P xs = Some x \<Longrightarrow> x \<in> set xs \<and> P x"
  by (induction xs) (auto split: if_splits)

lemma removeFrom_absent: "\<not> arrayIncludes arr u \<Longrightarrow> removeFrom arr u = arr"
  by (cases arr) (auto simp: arrayIncludes_def removeFrom_def filter_id_conv)

text \<open>Evaluations on the sample data.\<close>

lemma docSpec_found: "getDocById specServices ''d1'' w0 = Inr (Some docSpec)"
  by (simp add: spec_defs sample_defs)

lemma docSpec_ids:
  "idsOf (readonly docSpec) = [''u2'']" "idsOf (readWrite docSpec) = [''u3'']"
  by (simp_all add: idsOf_def docSpec_def)

lemma docSpec_resolved:
  "resolveItem specServices w0 (Role_readOnly, ''u2'') = \<lparr>role = Role_readOnly, email = ''user@x.com''\<rparr>"
  "resolveItem specServices w0 (Role_readWrite, ''u3'') = \<lparr>role = Role_readWrite, email = ''User not found''\<rparr>"
  by (simp_all add: resolveItem_def spec_defs sample_defs)

lemma files_u1: "getAllFiles specServices ''u1'' w0 = Inr [docSpec, docSelf]"
  by (simp add: spec_defs sample_defs arrayIncludes_def)

lemma files_u4: "getAllFiles specServices ''u4'' w0 = Inr [docOther]"
  by (simp add: spec_defs sample_defs arrayIncludes_def)

lemma sample_membership:
  "\<not> arrayIncludes (readonly docSpec) ''u1''" "\<not> arrayIncludes (readWrite docSpec) ''u1''"
  "arrayIncludes (readonly docSelf) ''u1''"
  "\<not> arrayIncludes (readonly docOther) ''u4''" "arrayIncludes (readWrite docOther) ''u4''"
  by (simp_all add: arrayIncludes_def sample_defs)

subsection \<open>The role reported by handleGetFiles\<close>

text \<open>
  On the sample store, the caller \<open>u1\<close> owns the document \<open>d2\<close> and is also in its
  read-only array. \<^verbatim>\<open>handleGetFiles\<close> reports the role readOnly for it, not Admin:
  the read-only array is tested first and the owner field is not read.
\<close>

theorem owner_in_read_only_set_counterexample:
  "adminId docSelf = ''u1'' \<and>
   handleGetFiles cfg0 specServices ''u1'' w0 =
     (\<lparr>status = 200,
       json = SuccessDocs
         [\<lparr>docId = ''d1'', e_name = ''Spec'', e_desc = ''v1'', e_role = Role_Admin\<rparr>,
          \<lparr>docId = ''d2'', e_name = ''Notes'', e_desc = ''own'', e_role = Role_readOnly\<rparr>]\<rparr>,
      w0)"
  by (simp add: handleGetFiles_def files_u1 fileEntry_def arrayIncludes_def docSpec_def docSelf_def)

text \<open>
  Such a store arises through the handlers: nothing in \<^verbatim>\<open>handleNewAccessRole\<close> keeps
  an owner from granting a role to their own email.
\<close>

lemma owner_can_grant_self:
  "handleNewAccessRole cfg0 specServices ''u1'' ''d2'' ''a@x.com'' Grant_readOnly
     (w0\<lparr>docs := [docSpec, docSelf\<lparr>readonly := Some []\<rparr>, docOther]\<rparr>) =
   (\<lparr>status = 200, json = SuccessMessage ''access granted''\<rparr>, w0)"
  by (simp add: handleNewAccessRole_def spec_defs sample_defs)

text \<open>
  Claim C1, as the code has it. Whenever \<^verbatim>\<open>getAllFiles\<close> returns, \<^verbatim>\<open>handleGetFiles\<close>
  answers 200 with one entry per returned document, in the same order, and the role of
  each entry is: readOnly if the caller's identifier is in the document's read-only
  array; otherwise readWrite if it is in the read-write array; otherwise Admin. So an
  owner is reported as Admin when their identifier is in neither array.
\<close>

theorem effective_role_precedence:
  assumes "getAllFiles sv userId w = Inr files"
  shows "\<exists>es. handleGetFiles cfg sv userId w = (\<lparr>status = 200, json = SuccessDocs es\<rparr>, w) \<and>
              length es = length files \<and>
              (\<forall>i < length files.
                 docId (es ! i) = d_id (files ! i) \<and>
                 (arrayIncludes (readonly (files ! i)) userId \<longrightarrow>
                    e_role (es ! i) = Role_readOnly) \<and>
                 (\<not> arrayIncludes (readonly (files ! i)) userId \<and>
                  arrayIncludes (readWrite (files ! i)) userId \<longrightarrow>
                    e_role (es ! i) = Role_readWrite) \<and>
                 (\<not> arrayIncludes (readonly (files ! i)) userId \<and>
                  \<not> arrayIncludes (readWrite (files ! i)) userId \<longrightarrow>
                    e_role (es ! i) = Role_Admin))"
proof -
  let ?es = "map (fileEntry userId) files"
  have resp: "handleGetFiles cfg sv userId w = (\<lparr>status = 200, json = SuccessDocs ?es\<rparr>, w)"
    by (rule handleGetFiles_ok [OF assms])
  have each: "\<forall>i < length files.
                 docId (?es ! i) = d_id (files ! i) \<and>
                 (arrayIncludes (readonly (files ! i)) userId \<longrightarrow>
                    e_role (?es ! i) = Role_readOnly) \<and>
                 (\<not> arrayIncludes (readonly (files ! i)) userId \<and>
                  arrayIncludes (readWrite (files ! i)) userId \<longrightarrow>
                    e_role (?es ! i) = Role_readWrite) \<and>
                 (\<not> arrayIncludes (readonly (files ! i)) userId \<and>
                  \<not> arrayIncludes (readWrite (files ! i)) userId \<longrightarrow>
                    e_role (?es ! i) = Role_Admin)"
    by (simp add: docId_fileEntry e_role_fileEntry)
  have len: "length ?es = length files" by simp
  from resp len each show ?thesis by blast
qed

theorem effective_role_precedence_witness:
  "getAllFiles specServices ''u1'' w0 = Inr [docSpec, docSelf] \<and>
   \<not> arrayIncludes (readonly docSpec) ''u1'' \<and> \<not> arrayIncludes (readWrite docSpec) ''u1'' \<and>
   arrayIncludes (readonly docSelf) ''u1'' \<and>
   (\<exists>es. handleGetFiles cfg0 specServices ''u1'' w0 =
           (\<lparr>status = 200, json = SuccessDocs es\<rparr>, w0) \<and>
         length es = 2 \<and>
         docId (es ! 0) = d_id docSpec \<and> e_role (es ! 0) = Role_Admin \<and>
         docId (es ! 1) = d_id docSelf \<and> e_role (es ! 1) = Role_readOnly) \<and>
   getAllFiles specServices ''u4'' w0 = Inr [docOther] \<and>
   \<not> arrayIncludes (readonly docOther) ''u4'' \<and> arrayIncludes (readWrite docOther) ''u4'' \<and>
   (\<exists>es. handleGetFiles cfg0 specServices ''u4'' w0 =
           (\<lparr>status = 200, json = SuccessDocs es\<rparr>, w0) \<and>
         length es = 1 \<and>
         docId (es ! 0) = d_id docOther \<and> e_role (es ! 0) = Role_readWrite)"
proof -
  from effective_role_precedence [OF files_u1, of cfg0]
  obtain es where es: "handleGetFiles cfg0 specServices ''u1'' w0 =
                         (\<lparr>status = 200, json = SuccessDocs es\<rparr>, w0)"
    and len: "length es = 2"
    and each: "\<And>i. i < 2 \<Longrightarrow>
                 docId (es ! i) = d_id ([docSpec, docSelf] ! i) \<and>
                 (arrayIncludes (readonly ([docSpec, docSelf] ! i)) ''u1'' \<longrightarrow>
                    e_role (es ! i) = Role_readOnly) \<and>
                 (\<not> arrayIncludes (readonly ([docSpec, docSelf] ! i)) ''u1'' \<and>
                  \<not> arrayIncludes (readWrite ([docSpec, docSelf] ! i)) ''u1'' \<longrightarrow>
                    e_role (es ! i) = Role_Admin)"
    by auto
  from each [of 0] each [of 1] have first:
    "docId (es ! 0) = d_id docSpec \<and> e_role (es ! 0) = Role_Admin \<and>
     docId (es ! 1) = d_id docSelf \<and> e_role (es ! 1) = Role_readOnly"
    by (simp add: sample_membership)
  from effective_role_precedence [OF files_u4, of cfg0]
  obtain es' where es': "handleGetFiles cfg0 specServices ''u4'' w0 =
                           (\<lparr>status = 200, json = SuccessDocs es'\<rparr>, w0)"
    and len': "length es' = 1"
    and each': "docId (es' ! 0) = d_id docOther \<and>
                (\<not> arrayIncludes (readonly docOther) ''u4'' \<and>
                 arrayIncludes (readWrite docOther) ''u4'' \<longrightarrow>
                   e_role (es' ! 0) = Role_readWrite)"
    by auto
  from each' have second: "docId (es' ! 0) = d_id docOther \<and> e_role (es' ! 0) = Role_readWrite"
    by (simp add: sample_membership)
  from es len first es' len' second files_u1 files_u4 sample_membership
  show ?thesis by blast
qed

subsection \<open>Callers who do not own the document\<close>

text \<open>
  For a caller who is not the owner of an existing document, \<^verbatim>\<open>handleNewAccessRole\<close>,
  \<^verbatim>\<open>handleRemoveRole\<close> and \<^verbatim>\<open>handleDeleteDoc\<close> throw inside their \<^verbatim>\<open>try\<close>, and
  the \<^verbatim>\<open>catch\<close> answers with status 500 and the message of the exception. The
  datastore is left as it was.
\<close>

lemma non_owner_rejected:
  assumes "getDocById sv docId' w = Inr (Some d)" and "adminId d \<noteq> userId"
  shows "handleNewAccessRole cfg sv userId docId' email' grole w =
           (\<lparr>status = 500, json = Fail (ACCESS_CHANGE_NOT_ALLOWED cfg)\<rparr>, w) \<and>
         handleRemoveRole cfg sv userId docId' email' role' w =
           (\<lparr>status = 500, json = Fail (ACCESS_CHANGE_NOT_ALLOWED cfg)\<rparr>, w) \<and>
         handleDeleteDoc cfg sv userId docId' w =
           (\<lparr>status = 500, json = Fail (ACCESS_CHANGE_NOT_ALLOWED cfg)\<rparr>, w)"
  using assms
  by (simp add: handleNewAccessRole_def handleRemoveRole_def handleDeleteDoc_def)

text \<open>
  Claim C2 says that a caller who is not the owner gets the unauthorized outcome, the one
  answered with status 403, from grantRole, removeRole and deleteDocument. On the sample
  store the user \<open>u2\<close>, who holds the read-only role on the document \<open>d1\<close> of owner
  \<open>u1\<close>, gets status 500 from each of the three handlers, the status of a failed store
  operation. \<^verbatim>\<open>handleGetAllUser\<close> answers the same caller on the same document with
  status 403.
\<close>

theorem non_owner_answered_500:
  "getDocById specServices ''d1'' w0 = Inr (Some docSpec) \<and>
   adminId docSpec \<noteq> ''u2'' \<and>
   handleNewAccessRole cfg0 specServices ''u2'' ''d1'' ''d@x.com'' Grant_readWrite w0 =
     (\<lparr>status = 500, json = Fail ''not allowed to change access''\<rparr>, w0) \<and>
   handleRemoveRole cfg0 specServices ''u2'' ''d1'' ''user@x.com'' Role_readOnly w0 =
     (\<lparr>status = 500, json = Fail ''not allowed to change access''\<rparr>, w0) \<and>
   handleDeleteDoc cfg0 specServices ''u2'' ''d1'' w0 =
     (\<lparr>status = 500, json = Fail ''not allowed to change access''\<rparr>, w0) \<and>
   handleGetAllUser cfg0 specServices [1, 0] ''u2'' ''d1'' w0 =
     (\<lparr>status = 403, json = Fail ''unauthorized user''\<rparr>, w0)"
proof -
  have h: "adminId docSpec \<noteq> ''u2''"
    by (simp add: docSpec_def)
  have c: "ACCESS_CHANGE_NOT_ALLOWED cfg0 = ''not allowed to change access''"
    "UNAUTHORIZED_USER cfg0 = ''unauthorized user''"
    by (simp_all add: cfg0_def)
  show ?thesis
    using h c docSpec_found
    by (simp add: handleNewAccessRole_def handleRemoveRole_def handleDeleteDoc_def
        handleGetAllUser_def)
qed

subsection \<open>The role assignments listed by handleGetAllUser\<close>

text \<open>
  Claim C3. For an existing document and its owner, \<^verbatim>\<open>handleGetAllUser\<close> answers 200
  with exactly one entry for each identifier of the read-only array followed by the
  read-write array. The email of an entry depends on the lookup of its own identifier
  only: the user's email when the lookup finds a user, and the placeholder
  "User not found" when it finds none or throws. No entry is dropped, and a failed
  lookup changes neither the status nor any other entry.
\<close>

theorem unresolved_entries_kept:
  assumes "getDocById sv docId' w = Inr (Some d)" and "adminId d = userId"
  shows "\<exists>us. handleGetAllUser cfg sv order userId docId' w =
                (\<lparr>status = 200, json = SuccessUsers us\<rparr>, w) \<and>
              length us = length (idsOf (readonly d) @ idsOf (readWrite d)) \<and>
              (\<forall>i < length us.
                 role (us ! i) =
                   (if i < length (idsOf (readonly d)) then Role_readOnly else Role_readWrite) \<and>
                 email (us ! i) =
                   (case findUserById sv ((idsOf (readonly d) @ idsOf (readWrite d)) ! i) w of
                      Inr (Some u) \<Rightarrow> u_email u
                    | Inr None \<Rightarrow> ''User not found''
                    | Inl e \<Rightarrow> ''User not found''))"
proof -
  let ?ro = "idsOf (readonly d)" and ?rw = "idsOf (readWrite d)"
  let ?us = "map (resolveItem sv w) (mergedData d)"
  have resp: "handleGetAllUser cfg sv order userId docId' w =
                (\<lparr>status = 200, json = SuccessUsers ?us\<rparr>, w)"
    by (rule handleGetAllUser_owner [OF assms])
  have len: "length ?us = length (?ro @ ?rw)"
    by (simp add: mergedData_eq)
  have each: "role (?us ! i) = (if i < length ?ro then Role_readOnly else Role_readWrite) \<and>
              email (?us ! i) =
                (case findUserById sv ((?ro @ ?rw) ! i) w of
                   Inr (Some u) \<Rightarrow> u_email u
                 | Inr None \<Rightarrow> ''User not found''
                 | Inl e \<Rightarrow> ''User not found'')"
    if "i < length ?us" for i
  proof (cases "i < length ?ro")
    case True
    then show ?thesis
      by (simp add: mergedData_eq nth_append resolveItem_def split: sum.splits option.splits)
  next
    case False
    with that have "i - length ?ro < length ?rw"
      by (simp add: mergedData_eq)
    with False show ?thesis
      by (simp add: mergedData_eq nth_append resolveItem_def split: sum.splits option.splits)
  qed
  from resp len each show ?thesis by blast
qed

theorem unresolved_entries_kept_witness:
  "getDocById specServices ''d1'' w0 = Inr (Some docSpec) \<and>
   adminId docSpec = ''u1'' \<and>
   findUserById specServices ''u3'' w0 = Inr None \<and>
   (\<exists>us. handleGetAllUser cfg0 specServices [1, 0] ''u1'' ''d1'' w0 =
           (\<lparr>status = 200, json = SuccessUsers us\<rparr>, w0) \<and>
         length us = 2 \<and>
         role (us ! 0) = Role_readOnly \<and> email (us ! 0) = ''user@x.com'' \<and>
         role (us ! 1) = Role_readWrite \<and> email (us ! 1) = ''User not found'')"
proof -
  have h: "adminId docSpec = ''u1''"
    by (simp add: docSpec_def)
  have u2: "findUserById specServices ''u2'' w0 = Inr (Some \<lparr>u_id = ''u2'', u_email = ''user@x.com''\<rparr>)"
    and u3: "findUserById specServices ''u3'' w0 = Inr None"
    by (simp_all add: spec_defs sample_defs)
  from unresolved_entries_kept [OF docSpec_found h, where cfg = cfg0 and order = "[1, 0]"]
  obtain us where us: "handleGetAllUser cfg0 specServices [1, 0] ''u1'' ''d1'' w0 =
                         (\<lparr>status = 200, json = SuccessUsers us\<rparr>, w0)"
    and len: "length us = 2"
    and each: "\<And>i. i < 2 \<Longrightarrow>
                 role (us ! i) = (if i < 1 then Role_readOnly else Role_readWrite) \<and>
                 email (us ! i) =
                   (case findUserById specServices ([''u2'', ''u3''] ! i) w0 of
                      Inr (Some u) \<Rightarrow> u_email u
                    | Inr None \<Rightarrow> ''User not found''
                    | Inl e \<Rightarrow> ''User not found'')"
    by (auto simp: docSpec_ids)
  from each [of 0] each [of 1] have
    "role (us ! 0) = Role_readOnly \<and> email (us ! 0) = ''user@x.com'' \<and>
     role (us ! 1) = Role_readWrite \<and> email (us ! 1) = ''User not found''"
    by (simp add: u2 u3)
  with us len docSpec_found h u3 show ?thesis by blast
qed

text \<open>
  Claim C4. \<^verbatim>\<open>handleGetAllUser\<close> first requires the document to exist, and answers 404
  otherwise, whoever the caller is; it then requires the caller to be the document's
  owner, and answers 403 otherwise; for an existing document and its owner it answers
  200 with the resolved entries of the merged sequence, the read-only identifiers
  tagged readOnly followed by the read-write identifiers tagged readWrite.
\<close>

theorem handleGetAllUser_preconditions:
  "(getDocById sv docId' w = Inr None \<longrightarrow>
      handleGetAllUser cfg sv order userId docId' w =
        (\<lparr>status = 404, json = Fail ''No document found''\<rparr>, w)) \<and>
   (getDocById sv docId' w = Inr (Some d) \<and> adminId d \<noteq> userId \<longrightarrow>
      handleGetAllUser cfg sv order userId docId' w =
        (\<lparr>status = 403, json = Fail (UNAUTHORIZED_USER cfg)\<rparr>, w)) \<and>
   (getDocById sv docId' w = Inr (Some d) \<and> adminId d = userId \<longrightarrow>
      handleGetAllUser cfg sv order userId docId' w =
        (\<lparr>status = 200,
          json = SuccessUsers
            (map (resolveItem sv w)
               (map (Pair Role_readOnly) (idsOf (readonly d)) @
                map (Pair Role_readWrite) (idsOf (readWrite d))))\<rparr>, w))"
  by (simp add: handleGetAllUser_def mergedData_eq promiseAll_eq)

theorem handleGetAllUser_preconditions_witness:
  "getDocById specServices ''d9'' w0 = Inr None \<and>
   handleGetAllUser cfg0 specServices [1, 0] ''u1'' ''d9'' w0 =
     (\<lparr>status = 404, json = Fail ''No document found''\<rparr>, w0) \<and>
   getDocById specServices ''d1'' w0 = Inr (Some docSpec) \<and>
   adminId docSpec \<noteq> ''u2'' \<and>
   handleGetAllUser cfg0 specServices [1, 0] ''u2'' ''d1'' w0 =
     (\<lparr>status = 403, json = Fail ''unauthorized user''\<rparr>, w0) \<and>
   adminId docSpec = ''u1'' \<and>
   handleGetAllUser cfg0 specServices [1, 0] ''u1'' ''d1'' w0 =
     (\<lparr>status = 200,
       json = SuccessUsers [\<lparr>role = Role_readOnly, email = ''user@x.com''\<rparr>,
                            \<lparr>role = Role_readWrite, email = ''User not found''\<rparr>]\<rparr>, w0)"
proof -
  have h0: "getDocById specServices ''d9'' w0 = Inr None"
    by (simp add: spec_defs sample_defs)
  have h2: "adminId docSpec \<noteq> ''u2''" and h1: "adminId docSpec = ''u1''"
    by (simp_all add: docSpec_def)
  have c: "UNAUTHORIZED_USER cfg0 = ''unauthorized user''"
    by (simp add: cfg0_def)
  show ?thesis
    using h0 h1 h2 c docSpec_found docSpec_ids docSpec_resolved
      handleGetAllUser_preconditions
        [where sv = specServices and docId' = "''d9''" and w = w0 and cfg = cfg0
           and order = "[1, 0]" and userId = "''u1''" and d = docSpec]
      handleGetAllUser_preconditions
        [where sv = specServices and docId' = "''d1''" and w = w0 and cfg = cfg0
           and order = "[1, 0]" and userId = "''u2''" and d = docSpec]
      handleGetAllUser_preconditions
        [where sv = specServices and docId' = "''d1''" and w = w0 and cfg = cfg0
           and order = "[1, 0]" and userId = "''u1''" and d = docSpec]
    by simp
qed

text \<open>
  Claim C5. For an existing document and its owner, the sequence answered by
  \<^verbatim>\<open>handleGetAllUser\<close> is the same for every completion order of the lookups. It
  has the entries of the read-only array first, each tagged readOnly, then the entries
  of the read-write array, each tagged readWrite; the entry at each position is the
  resolution of the identifier at that position of the merged input.
\<close>

theorem role_assignments_order:
  assumes "getDocById sv docId' w = Inr (Some d)" and "adminId d = userId"
  shows "\<exists>us. (\<forall>order. handleGetAllUser cfg sv order userId docId' w =
                         (\<lparr>status = 200, json = SuccessUsers us\<rparr>, w)) \<and>
              length us = length (idsOf (readonly d)) + length (idsOf (readWrite d)) \<and>
              map role us =
                replicate (length (idsOf (readonly d))) Role_readOnly @
                replicate (length (idsOf (readWrite d))) Role_readWrite \<and>
              (\<forall>i < length (idsOf (readonly d)).
                 us ! i = resolveItem sv w (Role_readOnly, idsOf (readonly d) ! i)) \<and>
              (\<forall>j < length (idsOf (readWrite d)).
                 us ! (length (idsOf (readonly d)) + j) =
                   resolveItem sv w (Role_readWrite, idsOf (readWrite d) ! j))"
proof -
  let ?ro = "idsOf (readonly d)" and ?rw = "idsOf (readWrite d)"
  let ?us = "map (resolveItem sv w) (mergedData d)"
  have resp: "\<forall>order. handleGetAllUser cfg sv order userId docId' w =
                        (\<lparr>status = 200, json = SuccessUsers ?us\<rparr>, w)"
    by (simp add: handleGetAllUser_owner [OF assms])
  have len: "length ?us = length ?ro + length ?rw"
    by (simp add: mergedData_eq)
  have roles: "map role ?us = replicate (length ?ro) Role_readOnly @ replicate (length ?rw) Role_readWrite"
    by (simp add: mergedData_eq role_resolveItem comp_def map_replicate_const)
  have first: "\<forall>i < length ?ro. ?us ! i = resolveItem sv w (Role_readOnly, ?ro ! i)"
    by (simp add: mergedData_eq nth_append)
  have second: "\<forall>j < length ?rw. ?us ! (length ?ro + j) = resolveItem sv w (Role_readWrite, ?rw ! j)"
    by (simp add: mergedData_eq nth_append)
  from resp len roles first second show ?thesis by blast
qed

theorem role_assignments_order_witness:
  "getDocById specServices ''d1'' w0 = Inr (Some docSpec) \<and>
   adminId docSpec = ''u1'' \<and>
   (\<exists>us. handleGetAllUser cfg0 specServices [0, 1] ''u1'' ''d1'' w0 =
           (\<lparr>status = 200, json = SuccessUsers us\<rparr>, w0) \<and>
         handleGetAllUser cfg0 specServices [1, 0] ''u1'' ''d1'' w0 =
           (\<lparr>status = 200, json = SuccessUsers us\<rparr>, w0) \<and>
         length us = 2 \<and>
         map role us = [Role_readOnly, Role_readWrite] \<and>
         us ! 0 = resolveItem specServices w0 (Role_readOnly, ''u2'') \<and>
         us ! 1 = resolveItem specServices w0 (Role_readWrite, ''u3''))"
proof -
  have h: "adminId docSpec = ''u1''"
    by (simp add: docSpec_def)
  from role_assignments_order [OF docSpec_found h, where cfg = cfg0]
  show ?thesis
    using docSpec_found h by (auto simp: docSpec_ids)
qed

subsection \<open>Unregistered emails\<close>

text \<open>
  Claim C6. When the document exists, the caller is its owner and the lookup of the
  email finds no user, \<^verbatim>\<open>handleNewAccessRole\<close> and \<^verbatim>\<open>handleRemoveRole\<close> both answer
  404 with the message \<open>EMAIL_NOT_REGISTERED\<close>, and the datastore is unchanged:
  neither \<open>grantRole\<close> nor \<open>removeRole\<close> is called.
\<close>

theorem unregistered_email_not_found:
  assumes "getDocById sv docId' w = Inr (Some d)" and "adminId d = userId"
    and "findUserByEmail sv email' w = Inr None"
  shows "handleNewAccessRole cfg sv userId docId' email' grole w =
           (\<lparr>status = 404, json = Fail (EMAIL_NOT_REGISTERED cfg)\<rparr>, w) \<and>
         handleRemoveRole cfg sv userId docId' email' role' w =
           (\<lparr>status = 404, json = Fail (EMAIL_NOT_REGISTERED cfg)\<rparr>, w)"
  using assms by (simp add: handleNewAccessRole_def handleRemoveRole_def)

theorem unregistered_email_not_found_witness:
  "getDocById specServices ''d1'' w0 = Inr (Some docSpec) \<and>
   adminId docSpec = ''u1'' \<and>
   findUserByEmail specServices ''nobody@x.com'' w0 = Inr None \<and>
   handleNewAccessRole cfg0 specServices ''u1'' ''d1'' ''nobody@x.com'' Grant_readWrite w0 =
     (\<lparr>status = 404, json = Fail ''email not registered''\<rparr>, w0) \<and>
   handleRemoveRole cfg0 specServices ''u1'' ''d1'' ''nobody@x.com'' Role_readOnly w0 =
     (\<lparr>status = 404, json = Fail ''email not registered''\<rparr>, w0)"
proof -
  have h: "adminId docSpec = ''u1''"
    by (simp add: docSpec_def)
  have e: "findUserByEmail specServices ''nobody@x.com'' w0 = Inr None"
    by (simp add: spec_defs sample_defs)
  have c: "EMAIL_NOT_REGISTERED cfg0 = ''email not registered''"
    by (simp add: cfg0_def)
  from unregistered_email_not_found [OF docSpec_found h e, of cfg0 Grant_readWrite Role_readOnly]
  show ?thesis
    using docSpec_found h e c by simp
qed

subsection \<open>The documents listed by handleGetFiles\<close>

text \<open>
  Claim C7, over the datastore of the specification. In a store with unique document
  identifiers, a document of the store is among those \<^verbatim>\<open>handleGetFiles\<close> lists for a
  user exactly when the user is its owner or is in its read-only or read-write array.
\<close>

theorem visible_documents_exact:
  assumes "distinct (map d_id (docs w))" and "D \<in> set (docs w)"
  shows "\<exists>es. handleGetFiles cfg specServices U w =
                (\<lparr>status = 200, json = SuccessDocs es\<rparr>, w) \<and>
              (d_id D \<in> set (map docId es)) =
                (adminId D = U \<or> arrayIncludes (readonly D) U \<or> arrayIncludes (readWrite D) U)"
proof -
  let ?files = "filter (visibleTo U) (docs w)"
  let ?es = "map (fileEntry U) ?files"
  have "getAllFiles specServices U w = Inr ?files"
    by (simp add: specServices_def spec_getAllFiles_def)
  then have resp: "handleGetFiles cfg specServices U w =
                     (\<lparr>status = 200, json = SuccessDocs ?es\<rparr>, w)"
    by (rule handleGetFiles_ok)
  have ids: "map docId ?es = map d_id ?files"
    by (simp add: docId_fileEntry)
  have "(d_id D \<in> set (map d_id ?files)) = visibleTo U D"
  proof
    assume "d_id D \<in> set (map d_id ?files)"
    then obtain x where x: "x \<in> set (docs w)" "visibleTo U x" "d_id x = d_id D"
      by auto
    with assms have "x = D"
      by (blast intro: same_id_same_doc)
    with x show "visibleTo U D" by simp
  next
    assume "visibleTo U D"
    with assms(2) have "D \<in> set ?files" by simp
    then show "d_id D \<in> set (map d_id ?files)" by (simp only: set_map imageI)
  qed
  with ids have "(d_id D \<in> set (map docId ?es)) =
                   (adminId D = U \<or> arrayIncludes (readonly D) U \<or> arrayIncludes (readWrite D) U)"
    by (simp only: visibleTo_def)
  with resp show ?thesis by blast
qed

theorem visible_documents_exact_witness:
  "distinct (map d_id (docs w0)) \<and> docSpec \<in> set (docs w0) \<and> docOther \<in> set (docs w0) \<and>
   (\<exists>es. handleGetFiles cfg0 specServices ''u1'' w0 =
           (\<lparr>status = 200, json = SuccessDocs es\<rparr>, w0) \<and>
         ''d1'' \<in> set (map docId es) \<and> ''d3'' \<notin> set (map docId es))"
proof -
  have dist: "distinct (map d_id (docs w0))"
    and m1: "docSpec \<in> set (docs w0)" and m3: "docOther \<in> set (docs w0)"
    by (simp_all add: sample_defs)
  have vis: "adminId docSpec = ''u1''" "adminId docOther \<noteq> ''u1''"
    "\<not> arrayIncludes (readonly docOther) ''u1''" "\<not> arrayIncludes (readWrite docOther) ''u1''"
    "d_id docSpec = ''d1''" "d_id docOther = ''d3''"
    by (simp_all add: arrayIncludes_def sample_defs)
  from visible_documents_exact [OF dist m1, of cfg0 "''u1''"]
    visible_documents_exact [OF dist m3, of cfg0 "''u1''"]
  have "\<exists>es. handleGetFiles cfg0 specServices ''u1'' w0 =
           (\<lparr>status = 200, json = SuccessDocs es\<rparr>, w0) \<and>
         ''d1'' \<in> set (map docId es) \<and> ''d3'' \<notin> set (map docId es)"
    by (auto simp: vis)
  with dist m1 m3 show ?thesis by blast
qed

subsection \<open>Removing a role that is not held\<close>

text \<open>
  Claim C8, over the datastore of the specification. In a store with unique document
  identifiers, when the owner of an existing document asks to remove the readOnly or
  readWrite role of a registered user whose identifier is not in that role's array,
  \<^verbatim>\<open>handleRemoveRole\<close> answers 200 and the whole datastore, so every field of every
  document, is unchanged.
\<close>

theorem removeRole_absent_noop:
  assumes "distinct (map d_id (docs w))"
    and "getDocById specServices docId' w = Inr (Some d)"
    and "adminId d = userId"
    and "findUserByEmail specServices email' w = Inr (Some p)"
    and "role' \<noteq> Role_Admin"
    and "\<not> arrayIncludes (roleArray role' d) (u_id p)"
  shows "handleRemoveRole cfg specServices userId docId' email' role' w =
           (\<lparr>status = 200, json = SuccessMessage (ACCESS_REMOVED cfg)\<rparr>, w)"
proof -
  from assms(2) have "find (\<lambda>x. d_id x = docId') (docs w) = Some d"
    by (simp add: specServices_def spec_getDocById_def)
  then have d_in: "d \<in> set (docs w)"
    by (simp add: find_Some_mem)
  have keep: "(if d_id x = d_id d
               then (case role' of
                       Role_readOnly \<Rightarrow> x\<lparr>readonly := removeFrom (readonly x) (u_id p)\<rparr>
                     | Role_readWrite \<Rightarrow> x\<lparr>readWrite := removeFrom (readWrite x) (u_id p)\<rparr>
                     | Role_Admin \<Rightarrow> x)
               else x) = x" if "x \<in> set (docs w)" for x
  proof (cases "d_id x = d_id d")
    case True
    with assms(1) that d_in have "x = d"
      by (blast intro: same_id_same_doc)
    with assms(6) show ?thesis
      by (cases role') (simp_all add: roleArray_def removeFrom_absent)
  next
    case False
    then show ?thesis by simp
  qed
  have "removeRole specServices d (u_id p) role' w = (Inr (), w)"
    using keep by (simp add: specServices_def spec_removeRole_def map_idI)
  with assms(2,3,4) show ?thesis
    by (simp add: handleRemoveRole_def)
qed

theorem removeRole_absent_noop_witness:
  "distinct (map d_id (docs w0)) \<and>
   getDocById specServices ''d1'' w0 = Inr (Some docSpec) \<and>
   adminId docSpec = ''u1'' \<and>
   findUserByEmail specServices ''d@x.com'' w0 = Inr (Some \<lparr>u_id = ''u4'', u_email = ''d@x.com''\<rparr>) \<and>
   Role_readOnly \<noteq> Role_Admin \<and>
   \<not> arrayIncludes (roleArray Role_readOnly docSpec) ''u4'' \<and>
   handleRemoveRole cfg0 specServices ''u1'' ''d1'' ''d@x.com'' Role_readOnly w0 =
     (\<lparr>status = 200, json = SuccessMessage ''access removed''\<rparr>, w0)"
proof -
  have dist: "distinct (map d_id (docs w0))"
    by (simp add: sample_defs)
  have h: "adminId docSpec = ''u1''"
    by (simp add: docSpec_def)
  have e: "findUserByEmail specServices ''d@x.com'' w0 =
             Inr (Some \<lparr>u_id = ''u4'', u_email = ''d@x.com''\<rparr>)"
    by (simp add: spec_defs sample_defs)
  have r: "Role_readOnly \<noteq> Role_Admin"
    by simp
  have a: "\<not> arrayIncludes (roleArray Role_readOnly docSpec) (u_id \<lparr>u_id = ''u4'', u_email = ''d@x.com''\<rparr>)"
    by (simp add: arrayIncludes_def roleArray_def docSpec_def)
  have c: "ACCESS_REMOVED cfg0 = ''access removed''"
    by (simp add: cfg0_def)
  from removeRole_absent_noop [OF dist docSpec_found h e r a, of cfg0]
  show ?thesis
    using dist docSpec_found h e a c by simp
qed

subsection \<open>The owner field is not read by handleGetFiles\<close>

text \<open>
  Claim C9. Whenever \<^verbatim>\<open>getAllFiles\<close> returns, the role \<^verbatim>\<open>handleGetFiles\<close> reports
  for a returned document is Admin exactly when the caller's identifier is in neither
  the read-only nor the read-write array of the document; and the answer stays the
  same when the owner fields of the returned documents are replaced by any other
  values.
\<close>

theorem admin_label_ignores_owner:
  assumes "getAllFiles sv userId w = Inr files"
  shows "\<exists>es. handleGetFiles cfg sv userId w = (\<lparr>status = 200, json = SuccessDocs es\<rparr>, w) \<and>
              length es = length files \<and>
              (\<forall>i < length files.
                 (e_role (es ! i) = Role_Admin) =
                 (\<not> arrayIncludes (readonly (files ! i)) userId \<and>
                  \<not> arrayIncludes (readWrite (files ! i)) userId)) \<and>
              (\<forall>own. handleGetFiles cfg
                        (sv\<lparr>getAllFiles := \<lambda>u v. Inr (map (\<lambda>f. f\<lparr>adminId := own f\<rparr>) files)\<rparr>)
                        userId w =
                      (\<lparr>status = 200, json = SuccessDocs es\<rparr>, w))"
proof -
  let ?es = "map (fileEntry userId) files"
  have resp: "handleGetFiles cfg sv userId w = (\<lparr>status = 200, json = SuccessDocs ?es\<rparr>, w)"
    by (rule handleGetFiles_ok [OF assms])
  have len: "length ?es = length files" by simp
  have each: "\<forall>i < length files.
                 (e_role (?es ! i) = Role_Admin) =
                 (\<not> arrayIncludes (readonly (files ! i)) userId \<and>
                  \<not> arrayIncludes (readWrite (files ! i)) userId)"
    by (simp add: e_role_fileEntry)
  have own: "\<forall>own. handleGetFiles cfg
                        (sv\<lparr>getAllFiles := \<lambda>u v. Inr (map (\<lambda>f. f\<lparr>adminId := own f\<rparr>) files)\<rparr>)
                        userId w =
                      (\<lparr>status = 200, json = SuccessDocs ?es\<rparr>, w)"
    by (simp add: handleGetFiles_def comp_def fileEntry_adminId)
  from resp len each own show ?thesis by blast
qed

theorem admin_label_ignores_owner_witness:
  "getAllFiles specServices ''u1'' w0 = Inr [docSpec, docSelf] \<and>
   (\<exists>es. handleGetFiles cfg0 specServices ''u1'' w0 =
           (\<lparr>status = 200, json = SuccessDocs es\<rparr>, w0) \<and>
         length es = 2 \<and>
         e_role (es ! 0) = Role_Admin \<and> e_role (es ! 1) \<noteq> Role_Admin \<and>
         handleGetFiles cfg0
           (specServices\<lparr>getAllFiles :=
              \<lambda>u v. Inr (map (\<lambda>f. f\<lparr>adminId := ''u9''\<rparr>) [docSpec, docSelf])\<rparr>)
           ''u1'' w0 =
         (\<lparr>status = 200, json = SuccessDocs es\<rparr>, w0))"
proof -
  from admin_label_ignores_owner [OF files_u1, of cfg0]
  obtain es where es: "handleGetFiles cfg0 specServices ''u1'' w0 =
                         (\<lparr>status = 200, json = SuccessDocs es\<rparr>, w0)"
    and len: "length es = 2"
    and each: "\<And>i. i < 2 \<Longrightarrow>
                 (e_role (es ! i) = Role_Admin) =
                 (\<not> arrayIncludes (readonly ([docSpec, docSelf] ! i)) ''u1'' \<and>
                  \<not> arrayIncludes (readWrite ([docSpec, docSelf] ! i)) ''u1'')"
    and own: "\<And>own. handleGetFiles cfg0
                        (specServices\<lparr>getAllFiles :=
                           \<lambda>u v. Inr (map (\<lambda>f. f\<lparr>adminId := own f\<rparr>) [docSpec, docSelf])\<rparr>)
                        ''u1'' w0 =
                      (\<lparr>status = 200, json = SuccessDocs es\<rparr>, w0)"
    by auto
  from each [of 0] each [of 1] have roles:
    "e_role (es ! 0) = Role_Admin \<and> e_role (es ! 1) \<noteq> Role_Admin"
    by (simp add: sample_membership)
  from es len roles own [of "\<lambda>f. ''u9''"] files_u1 show ?thesis by blast
qed

subsection \<open>Missing documents\<close>

text \<open>
  Claim C10. When the lookup of the document finds none, each of
  \<^verbatim>\<open>handleGetAllUser\<close>, \<^verbatim>\<open>handleNewAccessRole\<close>, \<^verbatim>\<open>handleRemoveRole\<close> and
  \<^verbatim>\<open>handleDeleteDoc\<close> answers 404 for every caller and leaves the datastore unchanged:
  the existence check comes before the ownership check.
\<close>

theorem missing_document_not_found:
  assumes "getDocById sv docId' w = Inr None"
  shows "handleGetAllUser cfg sv order userId docId' w =
           (\<lparr>status = 404, json = Fail ''No document found''\<rparr>, w) \<and>
         handleNewAccessRole cfg sv userId docId' email' grole w =
           (\<lparr>status = 404, json = Fail (INVALID_DOC cfg)\<rparr>, w) \<and>
         handleRemoveRole cfg sv userId docId' email' role' w =
           (\<lparr>status = 404, json = Fail (INVALID_DOC cfg)\<rparr>, w) \<and>
         handleDeleteDoc cfg sv userId docId' w =
           (\<lparr>status = 404, json = Fail (INVALID_DOC cfg)\<rparr>, w)"
  using assms
  by (simp add: handleGetAllUser_def handleNewAccessRole_def handleRemoveRole_def
      handleDeleteDoc_def)

theorem missing_document_not_found_witness:
  "getDocById specServices ''d9'' w0 = Inr None \<and>
   handleGetAllUser cfg0 specServices [1, 0] ''u1'' ''d9'' w0 =
     (\<lparr>status = 404, json = Fail ''No document found''\<rparr>, w0) \<and>
   handleNewAccessRole cfg0 specServices ''u1'' ''d9'' ''user@x.com'' Grant_readOnly w0 =
     (\<lparr>status = 404, json = Fail ''invalid document''\<rparr>, w0) \<and>
   handleRemoveRole cfg0 specServices ''u2'' ''d9'' ''user@x.com'' Role_readOnly w0 =
     (\<lparr>status = 404, json = Fail ''invalid document''\<rparr>, w0) \<and>
   handleDeleteDoc cfg0 specServices ''u2'' ''d9'' w0 =
     (\<lparr>status = 404, json = Fail ''invalid document''\<rparr>, w0)"
proof -
  have h: "getDocById specServices ''d9'' w0 = Inr None"
    by (simp add: spec_defs sample_defs)
  have c: "INVALID_DOC cfg0 = ''invalid document''"
    by (simp add: cfg0_def)
  show ?thesis
    using h c
      missing_document_not_found
        [OF h, where cfg = cfg0 and order = "[1, 0]" and userId = "''u1''"
           and email' = "''user@x.com''" and grole = Grant_readOnly and role' = Role_readOnly]
      missing_document_not_found
        [OF h, where cfg = cfg0 and order = "[1, 0]" and userId = "''u2''"
           and email' = "''user@x.com''" and grole = Grant_readOnly and role' = Role_readOnly]
    by simp
qed

end
